theory Spec2Isabelle
  imports Main
begin

section \<open>Python values, exceptions and list indexing\<close>

text \<open>
  The exceptions the program can raise: a failed \<open>assert\<close>, an index out of range,
  the program's own \<open>InvalidMove\<close>, and the attribute error of \<open>False.data\<close>.
\<close>

datatype error = AssertionError | IndexError | InvalidMove | AttributeError

text \<open>
  The argument of the constructor is any Python object. \<open>PyInt\<close> is an object that
  passes \<open>isinstance(_, int)\<close>, \<open>PyList\<close> one that passes \<open>isinstance(_, list)\<close>,
  \<open>PyOther\<close> any object that passes neither (a string, a float, \<open>None\<close>).
\<close>

datatype pyval = PyInt int | PyList "pyval list" | PyOther

text \<open>
  \<open>Puzzle.data\<close>: a list of rows, each a list of integers. The table is a value:
  the rows are taken to be nine separate list objects, so that a write to one row
  leaves the others as they are.
\<close>

type_synonym grid = "int list list"

type_synonym coord = "int \<times> int"

text \<open>
  \<open>xs[i]\<close> for a Python list: an index from \<open>-len(xs)\<close> to \<open>-1\<close> counts from the end,
  an index outside \<open>-len(xs) .. len(xs) - 1\<close> raises IndexError. \<open>position\<close> is the
  place in the list that the index names.
\<close>

definition position :: "'a list \<Rightarrow> int \<Rightarrow> error + nat" where
  "position xs i =
     (if 0 \<le> i \<and> i < int (length xs) then Inr (nat i)
      else if i < 0 \<and> - int (length xs) \<le> i then Inr (nat (i + int (length xs)))
      else Inl IndexError)"

definition py_index :: "'a list \<Rightarrow> int \<Rightarrow> error + 'a" where
  "py_index xs i = (case position xs i of Inl e \<Rightarrow> Inl e | Inr k \<Rightarrow> Inr (xs ! k))"

text \<open>\<open>range(a, b)\<close>: the integers from \<open>a\<close> up to \<open>b - 1\<close>.\<close>

definition py_range :: "int \<Rightarrow> int \<Rightarrow> int list" where
  "py_range a b = [a..b - 1]"

section \<open>The class Puzzle\<close>

subsection \<open>The constructor\<close>

text \<open>
  \<open>__init__\<close>: every \<open>assert\<close> of the two loops, in the order of the source. The inner
  loop is \<open>init_cells\<close>, the outer one \<open>init_rows\<close>. After the loops the table is
  stored as it is; \<open>table_of\<close> reads the integer table out of the object that passed.
\<close>

fun init_cells :: "pyval list \<Rightarrow> error + unit" where
  "init_cells [] = Inr ()"
| "init_cells (i # r) =
     (case i of
        PyInt n \<Rightarrow> if 0 \<le> n \<and> n \<le> 9 then init_cells r else Inl AssertionError
      | _ \<Rightarrow> Inl AssertionError)"

fun init_rows :: "pyval list \<Rightarrow> error + unit" where
  "init_rows [] = Inr ()"
| "init_rows (r # data) =
     (case r of
        PyList cells \<Rightarrow>
          if length cells = 9
          then (case init_cells cells of Inl e \<Rightarrow> Inl e | Inr u \<Rightarrow> init_rows data)
          else Inl AssertionError
      | _ \<Rightarrow> Inl AssertionError)"

fun int_of :: "pyval \<Rightarrow> int" where
  "int_of (PyInt n) = n"
| "int_of _ = 0"

fun list_of :: "pyval \<Rightarrow> pyval list" where
  "list_of (PyList xs) = xs"
| "list_of _ = []"

definition table_of :: "pyval \<Rightarrow> grid" where
  "table_of data = map (\<lambda>r. map int_of (list_of r)) (list_of data)"

definition init :: "pyval \<Rightarrow> error + grid" where
  "init data =
     (case data of
        PyList rows \<Rightarrow>
          if length rows = 9
          then (case init_rows rows of Inl e \<Rightarrow> Inl e | Inr u \<Rightarrow> Inr (table_of data))
          else Inl AssertionError
      | _ \<Rightarrow> Inl AssertionError)"

subsection \<open>Reading a cell\<close>

text \<open>\<open>__getitem__\<close>: \<open>self.data[row][col]\<close>; the coordinate is a pair by its type.\<close>

definition getitem :: "grid \<Rightarrow> coord \<Rightarrow> error + int" where
  "getitem data coord =
     (case coord of (row, col) \<Rightarrow>
        (case py_index data row of Inl e \<Rightarrow> Inl e | Inr r \<Rightarrow> py_index r col))"

subsection \<open>The move check\<close>

text \<open>
  \<open>check_valid_move\<close>: the first loop reads, for each \<open>i\<close> of \<open>range(9)\<close>, the cell
  \<open>(i, col)\<close> and then the cell \<open>(row, i)\<close>; the nested loops read the cells of the
  square. In the loops \<open>Inr False\<close> is the \<open>return False\<close> of the source and
  \<open>Inr True\<close> says that the loop ran to its end.
\<close>

fun scan_lines :: "grid \<Rightarrow> int \<Rightarrow> int \<Rightarrow> int \<Rightarrow> int list \<Rightarrow> error + bool" where
  "scan_lines data row col v [] = Inr True"
| "scan_lines data row col v (i # is) =
     (case getitem data (i, col) of
        Inl e \<Rightarrow> Inl e
      | Inr a \<Rightarrow>
          if a = v then Inr False
          else (case getitem data (row, i) of
                  Inl e \<Rightarrow> Inl e
                | Inr b \<Rightarrow> if b = v then Inr False else scan_lines data row col v is))"

fun scan_square_row :: "grid \<Rightarrow> int \<Rightarrow> int \<Rightarrow> int list \<Rightarrow> error + bool" where
  "scan_square_row data i v [] = Inr True"
| "scan_square_row data i v (j # js) =
     (case getitem data (i, j) of
        Inl e \<Rightarrow> Inl e
      | Inr a \<Rightarrow> if a = v then Inr False else scan_square_row data i v js)"

fun scan_square :: "grid \<Rightarrow> int \<Rightarrow> int list \<Rightarrow> int list \<Rightarrow> error + bool" where
  "scan_square data v js [] = Inr True"
| "scan_square data v js (i # is) =
     (case scan_square_row data i v js of
        Inl e \<Rightarrow> Inl e
      | Inr through \<Rightarrow> if through then scan_square data v js is else Inr False)"

definition check_valid_move :: "grid \<Rightarrow> int \<Rightarrow> int \<Rightarrow> int \<Rightarrow> error + bool" where
  "check_valid_move data row col v =
     (case scan_lines data row col v (py_range 0 9) of
        Inl e \<Rightarrow> Inl e
      | Inr through \<Rightarrow>
          if through
          then (let sq_row = (row div 3) * 3; sq_col = (col div 3) * 3
                in scan_square data v (py_range sq_col (sq_col + 3))
                     (py_range sq_row (sq_row + 3)))
          else Inr False)"

subsection \<open>Writing a cell\<close>

text \<open>
  \<open>__setitem__\<close> changes the object, so it returns the exception raised, if any, and
  the table as the call leaves it. \<open>store\<close> is the assignment
  \<open>self.data[row][col] = value\<close>.
\<close>

definition store :: "grid \<Rightarrow> int \<Rightarrow> int \<Rightarrow> int \<Rightarrow> error option \<times> grid" where
  "store data row col val =
     (case position data row of
        Inl e \<Rightarrow> (Some e, data)
      | Inr k \<Rightarrow>
          (case position (data ! k) col of
             Inl e \<Rightarrow> (Some e, data)
           | Inr j \<Rightarrow> (None, data[k := (data ! k)[j := val]])))"

definition setitem :: "grid \<Rightarrow> coord \<Rightarrow> int \<Rightarrow> error option \<times> grid" where
  "setitem data coord val =
     (case coord of (row, col) \<Rightarrow>
        (case check_valid_move data row col val of
           Inl e \<Rightarrow> (Some e, data)
         | Inr ok \<Rightarrow> if \<not> ok then (Some InvalidMove, data) else store data row col val))"

subsection \<open>The completeness check\<close>

text \<open>
  \<open>complete\<close>: the two lists of sums are the state of the nested loops. The indices
  \<open>i\<close> and \<open>j\<close> come from \<open>range(9)\<close> and the lists have nine entries.
\<close>

fun complete_inner :: "grid \<Rightarrow> int \<Rightarrow> int list \<times> int list \<Rightarrow> int list \<Rightarrow> error + int list \<times> int list" where
  "complete_inner data i sums [] = Inr sums"
| "complete_inner data i sums (j # js) =
     (case sums of (columnwise_sums, rowwise_sums) \<Rightarrow>
        (case getitem data (i, j) of
           Inl e \<Rightarrow> Inl e
         | Inr c \<Rightarrow>
             complete_inner data i
               (columnwise_sums[nat j := columnwise_sums ! nat j + c],
                rowwise_sums[nat i := rowwise_sums ! nat i + c]) js))"

fun complete_outer :: "grid \<Rightarrow> int list \<times> int list \<Rightarrow> int list \<Rightarrow> int list \<Rightarrow> error + int list \<times> int list" where
  "complete_outer data sums js [] = Inr sums"
| "complete_outer data sums js (i # is) =
     (case complete_inner data i sums js of
        Inl e \<Rightarrow> Inl e
      | Inr sums' \<Rightarrow> complete_outer data sums' js is)"

definition complete :: "grid \<Rightarrow> error + bool" where
  "complete data =
     (case complete_outer data (replicate 9 0, replicate 9 0) (py_range 0 9) (py_range 0 9) of
        Inl e \<Rightarrow> Inl e
      | Inr (columnwise_sums, rowwise_sums) \<Rightarrow>
          Inr (list_all (\<lambda>s. s = 45) columnwise_sums \<and> list_all (\<lambda>s. s = 45) rowwise_sums))"

section \<open>The solver\<close>

definition next_rc :: "int \<Rightarrow> int \<Rightarrow> int \<times> int" where
  "next_rc row col =
     (let col = col + 1 in if col \<ge> 9 then (row + 1, col - 9) else (row, col))"

text \<open>What \<open>_solve_puzzle\<close> returns: a puzzle, or \<open>False\<close>.\<close>

datatype solution = Puzzle grid | PyFalse

text \<open>
  \<open>_solve_puzzle\<close> works on a deep copy of its argument, so it is a function of the
  table. \<open>try_values\<close> is its \<open>for\<close> loop over \<open>range(9)\<close>: the loop keeps the copy
  with the last value that was written, and goes on with it after a failed branch.
\<close>

function solve_puzzle :: "grid \<Rightarrow> int \<Rightarrow> int \<Rightarrow> error + solution"
  and try_values :: "grid \<Rightarrow> int \<Rightarrow> int \<Rightarrow> int list \<Rightarrow> error + solution"
where
  "solve_puzzle puzzle row col =
     (if row = 9 \<or> col = 9 then Inr (Puzzle puzzle)
      else (case getitem puzzle (row, col) of
              Inl e \<Rightarrow> Inl e
            | Inr c \<Rightarrow>
                if c \<noteq> 0
                then solve_puzzle puzzle (fst (next_rc row col)) (snd (next_rc row col))
                else try_values puzzle row col (py_range 0 9)))"
| "try_values puzzle row col [] = Inr PyFalse"
| "try_values puzzle row col (i # is) =
     (case setitem puzzle (row, col) (i + 1) of
        (Some e, puzzle') \<Rightarrow>
          if e = InvalidMove then try_values puzzle' row col is else Inl e
      | (None, puzzle') \<Rightarrow>
          if row = 8 \<and> col = 8 then Inr (Puzzle puzzle')
          else (case solve_puzzle puzzle' (fst (next_rc row col)) (snd (next_rc row col)) of
                  Inl e \<Rightarrow> Inl e
                | Inr PyFalse \<Rightarrow> try_values puzzle' row col is
                | Inr (Puzzle p) \<Rightarrow> Inr (Puzzle p)))"
  by pat_completeness auto

lemma setitem_length: "setitem g (row, col) v = (r, g') \<Longrightarrow> length g' = length g"
  by (auto simp: setitem_def store_def split: sum.splits if_splits)

lemma setitem_ok_row: "setitem g (row, col) v = (None, g') \<Longrightarrow> row < int (length g)"
  by (auto simp: setitem_def store_def position_def split: sum.splits if_splits)

lemma getitem_ok_row: "getitem g (row, col) = Inr c \<Longrightarrow> row < int (length g)"
  by (auto simp: getitem_def py_index_def position_def split: sum.splits if_splits)

lemma next_rc_cases:
  "(col + 1 < 9 \<and> next_rc row col = (row, col + 1)) \<or>
   (9 \<le> col + 1 \<and> next_rc row col = (row + 1, col - 8))"
  by (simp add: next_rc_def Let_def)

text \<open>
  The recursion ends: a call is made only after a read or a write at \<open>(row, col)\<close>
  went through, so \<open>row\<close> is below the number of rows; the cursor then either moves
  right in a row, below column 9, or moves to the next row.
\<close>

termination solve_puzzle
proof (relation "measures [
    (\<lambda>x. case x of Inl (g, row, col) \<Rightarrow> nat (int (length g) - row)
                  | Inr (g, row, col, vs) \<Rightarrow> nat (int (length g) - row)),
    (\<lambda>x. case x of Inl (g, row, col) \<Rightarrow> nat (9 - col)
                  | Inr (g, row, col, vs) \<Rightarrow> nat (9 - col)),
    (\<lambda>x. case x of Inl (g, row, col) \<Rightarrow> 1 | Inr (g, row, col, vs) \<Rightarrow> 0),
    (\<lambda>x. case x of Inl (g, row, col) \<Rightarrow> 0 | Inr (g, row, col, vs) \<Rightarrow> length vs)]",
    goal_cases)
  case 1
  then show ?case by simp
next
  case (2 puzzle row col c)
  from 2 have "row < int (length puzzle)" by (auto dest: getitem_ok_row)
  with next_rc_cases [of col row] show ?case by auto
next
  case 3
  then show ?case by simp
next
  case (4 puzzle row col i vs x y)
  from 4(1,2) have "length y = length puzzle" "row < int (length puzzle)"
    by (auto dest: setitem_length [OF sym] setitem_ok_row [OF sym])
  with next_rc_cases [of col row] show ?case by auto
next
  case (5 puzzle row col i vs x y)
  from 5(1) have "length y = length puzzle" by (auto dest: setitem_length [OF sym])
  then show ?case by simp
next
  case (6 puzzle row col i vs x y)
  from 6(1) have "length y = length puzzle" by (auto dest: setitem_length [OF sym])
  then show ?case by simp
qed

declare solve_puzzle.simps [simp del]

text \<open>
  \<open>Puzzle.solve\<close>: \<open>solution = _solve_puzzle(self, 0, 0)\<close>, then
  \<open>self.data = solution.data\<close>. When the solution is \<open>False\<close> the attribute access
  raises AttributeError and \<open>self.data\<close> stays as it was.
\<close>

definition solve :: "grid \<Rightarrow> error option \<times> grid" where
  "solve data =
     (case solve_puzzle data 0 0 of
        Inl e \<Rightarrow> (Some e, data)
      | Inr PyFalse \<Rightarrow> (Some AttributeError, data)
      | Inr (Puzzle p) \<Rightarrow> (None, p))"

subsection \<open>The depth of the recursion\<close>






section \<open>Vocabulary of the specification\<close>

text \<open>
  A table of nine rows of nine cells, and one whose cells all lie between 0 and 9.
  \<open>cell\<close> reads the cell at a coordinate \<open>(row, col)\<close> with \<open>row\<close> and \<open>col\<close> in 0..8.
\<close>

definition shape :: "grid \<Rightarrow> bool" where
  "shape g = (length g = 9 \<and> list_all (\<lambda>r. length r = 9) g)"

definition in_range :: "grid \<Rightarrow> bool" where
  "in_range g = list_all (list_all (\<lambda>c. 0 \<le> c \<and> c \<le> 9)) g"

definition cell :: "grid \<Rightarrow> coord \<Rightarrow> int" where
  "cell g p = g ! nat (fst p) ! nat (snd p)"

text \<open>
  The cells of a row, of a column and of the square that holds \<open>(r, c)\<close> (\<open>box a b\<close>
  is the square of three by three cells whose first cell is \<open>(a, b)\<close>); \<open>scanned\<close>
  are the cells of the three together, \<open>others\<close> the same without \<open>(r, c)\<close> itself,
  \<open>all_cells\<close> the 81 coordinates of the table.
\<close>

definition row_cells :: "int \<Rightarrow> coord list" where
  "row_cells r = map (\<lambda>j. (r, j)) [0..8]"

definition col_cells :: "int \<Rightarrow> coord list" where
  "col_cells c = map (\<lambda>i. (i, c)) [0..8]"

definition box :: "int \<Rightarrow> int \<Rightarrow> coord list" where
  "box a b = List.product [a..a + 2] [b..b + 2]"

definition square_cells :: "int \<Rightarrow> int \<Rightarrow> coord list" where
  "square_cells r c = box (r div 3 * 3) (c div 3 * 3)"

definition scanned :: "int \<Rightarrow> int \<Rightarrow> coord list" where
  "scanned r c = col_cells c @ row_cells r @ square_cells r c"

definition others :: "int \<Rightarrow> int \<Rightarrow> coord list" where
  "others r c = filter (\<lambda>p. p \<noteq> (r, c)) (scanned r c)"

definition all_cells :: "coord list" where
  "all_cells = concat (map row_cells [0..8])"

text \<open>
  The uniqueness constraint: in each of the nine rows, nine columns and nine squares,
  the cells that are not empty hold different values.
\<close>

definition units :: "coord list list" where
  "units = map row_cells [0..8] @ map col_cells [0..8]
     @ concat (map (\<lambda>a. map (\<lambda>b. box a b) [0, 3, 6]) [0, 3, 6])"

definition consistent :: "grid \<Rightarrow> bool" where
  "consistent g = list_all (\<lambda>u. distinct (filter (\<lambda>x. x \<noteq> 0) (map (cell g) u))) units"


text \<open>
  The tables the constructor is specified to accept: exactly nine rows, each of
  exactly nine integer cells, every cell in 0..9. \<open>py_table\<close> is the Python object
  of a table of integers.
\<close>

fun is_cell :: "pyval \<Rightarrow> bool" where
  "is_cell (PyInt n) = (0 \<le> n \<and> n \<le> 9)"
| "is_cell _ = False"

fun is_row :: "pyval \<Rightarrow> bool" where
  "is_row (PyList cells) = (length cells = 9 \<and> list_all is_cell cells)"
| "is_row _ = False"

fun valid_table :: "pyval \<Rightarrow> bool" where
  "valid_table (PyList rows) = (length rows = 9 \<and> list_all is_row rows)"
| "valid_table _ = False"

definition py_table :: "grid \<Rightarrow> pyval" where
  "py_table g = PyList (map (\<lambda>r. PyList (map PyInt r)) g)"

text \<open>
  Tables used as concrete inputs: the empty one, a solved one, one with a single
  clue, one with 5 in every cell.
\<close>

definition empty_grid :: grid where
  "empty_grid = replicate 9 (replicate 9 0)"

definition solved_grid :: grid where
  "solved_grid =
     [[5, 3, 4, 6, 7, 8, 9, 1, 2],
      [6, 7, 2, 1, 9, 5, 3, 4, 8],
      [1, 9, 8, 3, 4, 2, 5, 6, 7],
      [8, 5, 9, 7, 6, 1, 4, 2, 3],
      [4, 2, 6, 8, 5, 3, 7, 9, 1],
      [7, 1, 3, 9, 2, 4, 8, 5, 6],
      [9, 6, 1, 5, 3, 7, 2, 8, 4],
      [2, 8, 7, 4, 1, 9, 6, 3, 5],
      [3, 4, 5, 2, 8, 6, 1, 7, 9]]"

definition one_clue :: grid where
  "one_clue =
     [[5, 0, 0, 0, 0, 0, 0, 0, 0],
      [0, 0, 0, 0, 0, 0, 0, 0, 0],
      [0, 0, 0, 0, 0, 0, 0, 0, 0],
      [0, 0, 0, 0, 0, 0, 0, 0, 0],
      [0, 0, 0, 0, 0, 0, 0, 0, 0],
      [0, 0, 0, 0, 0, 0, 0, 0, 0],
      [0, 0, 0, 0, 0, 0, 0, 0, 0],
      [0, 0, 0, 0, 0, 0, 0, 0, 0],
      [0, 0, 0, 0, 0, 0, 0, 0, 0]]"

definition fives :: grid where
  "fives = replicate 9 (replicate 9 5)"


text \<open>
  A table with no solution (no value fits the first cell), and the solved table with
  three cells emptied.
\<close>

definition blocked :: grid where
  "blocked =
     [[0, 1, 2, 3, 4, 5, 6, 7, 8],
      [9, 0, 0, 0, 0, 0, 0, 0, 0],
      [0, 0, 0, 0, 0, 0, 0, 0, 0],
      [0, 0, 0, 0, 0, 0, 0, 0, 0],
      [0, 0, 0, 0, 0, 0, 0, 0, 0],
      [0, 0, 0, 0, 0, 0, 0, 0, 0],
      [0, 0, 0, 0, 0, 0, 0, 0, 0],
      [0, 0, 0, 0, 0, 0, 0, 0, 0],
      [0, 0, 0, 0, 0, 0, 0, 0, 0]]"


section \<open>Reading a cell\<close>

lemma shape_row: "shape g \<Longrightarrow> k < 9 \<Longrightarrow> length (g ! k) = 9"
  by (simp add: shape_def list_all_length)

lemma position_nine:
  "length xs = 9 \<Longrightarrow>
   position xs i =
     (if - 9 \<le> i \<and> i \<le> 8 then Inr (nat (if i < 0 then i + 9 else i)) else Inl IndexError)"
  by (auto simp: position_def)

lemma position_less: "position xs i = Inr k \<Longrightarrow> k < length xs"
  by (auto simp: position_def split: if_splits)

lemma getitem_shape:
  assumes "shape g"
  shows "getitem g (row, col) =
     (if - 9 \<le> row \<and> row \<le> 8 \<and> - 9 \<le> col \<and> col \<le> 8
      then Inr (cell g (if row < 0 then row + 9 else row, if col < 0 then col + 9 else col))
      else Inl IndexError)"
proof -
  have len: "length g = 9" using assms by (simp add: shape_def)
  show ?thesis
  proof (cases "- 9 \<le> row \<and> row \<le> 8")
    case True
    then have "nat (if row < 0 then row + 9 else row) < 9" by auto
    then have "length (g ! nat (if row < 0 then row + 9 else row)) = 9"
      using assms by (rule shape_row [rotated])
    then show ?thesis
      using True len by (simp add: getitem_def py_index_def position_nine cell_def)
  next
    case False
    then show ?thesis
      using len by (auto simp: getitem_def py_index_def position_nine)
  qed
qed

lemma getitem_cell:
  "shape g \<Longrightarrow> 0 \<le> row \<Longrightarrow> row \<le> 8 \<Longrightarrow> 0 \<le> col \<Longrightarrow> col \<le> 8 \<Longrightarrow>
   getitem g (row, col) = Inr (cell g (row, col))"
  by (simp add: getitem_shape)

text \<open>
  Claim C4, as amended. On a table of nine rows of nine cells, \<open>get(row, col)\<close>
  returns the cell at the coordinate when \<open>row\<close> and \<open>col\<close> lie in 0..8; an index
  in -9..-1 counts from the end, so the call returns the cell at that index plus 9;
  the call raises IndexError exactly when \<open>row\<close> or \<open>col\<close> lies outside -9..8.
\<close>

theorem getitem_negative_wraps:
  assumes "shape g"
  shows "getitem g (row, col) =
     (if - 9 \<le> row \<and> row \<le> 8 \<and> - 9 \<le> col \<and> col \<le> 8
      then Inr (cell g (if row < 0 then row + 9 else row, if col < 0 then col + 9 else col))
      else Inl IndexError)"
  using assms by (rule getitem_shape)

theorem getitem_negative_wraps_witness:
  "shape solved_grid \<and> getitem solved_grid (8, 0) = Inr 3
   \<and> getitem solved_grid (- 9, - 2) = Inr 1 \<and> getitem solved_grid (9, 0) = Inl IndexError"
proof -
  have s: "shape solved_grid" by (simp add: shape_def solved_grid_def)
  show ?thesis
    using s getitem_negative_wraps [OF s, of 8 0] getitem_negative_wraps [OF s, of "- 9" "- 2"]
      getitem_negative_wraps [OF s, of 9 0]
    by (simp add: cell_def solved_grid_def)
qed

text \<open>
  Claim C4, as stated, fails: the coordinate \<open>(-1, -1)\<close> lies outside 0..8 and the
  call returns the value of the last cell.
\<close>

theorem getitem_negative_counterexample:
  "getitem solved_grid (- 1, - 1) = Inr 9"
  by (simp add: getitem_def py_index_def position_def solved_grid_def)

section \<open>The move check\<close>

lemma scan_lines_shape:
  assumes "shape g" "0 \<le> row" "row \<le> 8" "0 \<le> col" "col \<le> 8"
    and "\<forall>i\<in>set is. 0 \<le> i \<and> i \<le> 8"
  shows "scan_lines g row col v is =
     Inr (\<forall>i\<in>set is. cell g (i, col) \<noteq> v \<and> cell g (row, i) \<noteq> v)"
  using assms(6)
proof (induction "is")
  case Nil
  then show ?case by simp
next
  case (Cons i "is")
  then show ?case
    using assms(1-5) by (auto simp: getitem_cell)
qed

lemma scan_square_row_shape:
  assumes "shape g" "0 \<le> i" "i \<le> 8" and "\<forall>j\<in>set js. 0 \<le> j \<and> j \<le> 8"
  shows "scan_square_row g i v js = Inr (\<forall>j\<in>set js. cell g (i, j) \<noteq> v)"
  using assms(4)
proof (induction js)
  case Nil
  then show ?case by simp
next
  case (Cons j js)
  then show ?case
    using assms(1-3) by (auto simp: getitem_cell)
qed

lemma scan_square_shape:
  assumes "shape g" and "\<forall>j\<in>set js. 0 \<le> j \<and> j \<le> 8" and "\<forall>i\<in>set is. 0 \<le> i \<and> i \<le> 8"
  shows "scan_square g v js is = Inr (\<forall>i\<in>set is. \<forall>j\<in>set js. cell g (i, j) \<noteq> v)"
  using assms(3)
proof (induction "is")
  case Nil
  then show ?case by simp
next
  case (Cons i "is")
  then show ?case
    using assms(1,2) by (auto simp: scan_square_row_shape)
qed

lemma square_bounds:
  fixes r :: int
  assumes "0 \<le> r" "r \<le> 8"
  shows "0 \<le> r div 3 * 3" "r div 3 * 3 + 2 \<le> 8" "r div 3 * 3 \<le> r" "r \<le> r div 3 * 3 + 2"
  using assms by presburger+

lemma set_box: "set (box a b) = {a..a + 2} \<times> {b..b + 2}"
  by (simp add: box_def)

lemma scan_square_box:
  assumes "shape g" "0 \<le> a" "a + 2 \<le> 8" "0 \<le> b" "b + 2 \<le> 8"
  shows "scan_square g v (py_range b (b + 3)) (py_range a (a + 3)) =
     Inr (v \<notin> set (map (cell g) (box a b)))"
proof -
  have "scan_square g v (py_range b (b + 3)) (py_range a (a + 3)) =
      Inr (\<forall>i\<in>set (py_range a (a + 3)). \<forall>j\<in>set (py_range b (b + 3)). cell g (i, j) \<noteq> v)"
    using assms by (intro scan_square_shape) (auto simp: py_range_def)
  also have "set (py_range a (a + 3)) = {a..a + 2}" by (simp add: py_range_def)
  also have "set (py_range b (b + 3)) = {b..b + 2}" by (simp add: py_range_def)
  finally show ?thesis
    by (auto simp: set_box)
qed

lemma check_valid_move_shape:
  assumes "shape g" "0 \<le> row" "row \<le> 8" "0 \<le> col" "col \<le> 8"
  shows "check_valid_move g row col v = Inr (v \<notin> set (map (cell g) (scanned row col)))"
proof -
  have lines: "scan_lines g row col v (py_range 0 9) =
      Inr (\<forall>i\<in>{0..8}. cell g (i, col) \<noteq> v \<and> cell g (row, i) \<noteq> v)"
    using scan_lines_shape [OF assms, of "py_range 0 9" v] by (simp add: py_range_def)
  have sq: "scan_square g v (py_range (col div 3 * 3) (col div 3 * 3 + 3))
        (py_range (row div 3 * 3) (row div 3 * 3 + 3)) =
      Inr (v \<notin> set (map (cell g) (square_cells row col)))"
    unfolding square_cells_def
    by (rule scan_square_box [OF assms(1) square_bounds(1,2) [OF assms(2,3)]
          square_bounds(1,2) [OF assms(4,5)]])
  have "set (map (cell g) (scanned row col)) =
      (\<lambda>i. cell g (i, col)) ` {0..8} \<union> (\<lambda>i. cell g (row, i)) ` {0..8}
       \<union> set (map (cell g) (square_cells row col))"
    by (auto simp: scanned_def row_cells_def col_cells_def)
  then show ?thesis
    unfolding check_valid_move_def lines Let_def sq by auto
qed

lemma target_scanned: "0 \<le> col \<Longrightarrow> col \<le> 8 \<Longrightarrow> (row, col) \<in> set (scanned row col)"
  by (auto simp: scanned_def row_cells_def)

lemma set_others: "set (others row col) = set (scanned row col) - {(row, col)}"
  by (auto simp: others_def)

text \<open>
  Claim C3, as amended. On a table of nine rows of nine cells and for \<open>row\<close>, \<open>col\<close>
  in 0..8, \<open>check_valid(row, col, v)\<close> returns true iff \<open>v\<close> is not the current
  content of the cell \<open>(row, col)\<close> itself and does not occur among the other cells
  of the same row, the same column or the same square (the square of
  \<open>(row / 3, col / 3)\<close>): the scan reads the target cell too.
\<close>

theorem check_valid_move_reads_target:
  assumes "shape g" "0 \<le> row" "row \<le> 8" "0 \<le> col" "col \<le> 8"
  shows "check_valid_move g row col v =
     Inr (cell g (row, col) \<noteq> v \<and> v \<notin> set (map (cell g) (others row col)))"
proof -
  have "set (scanned row col) = insert (row, col) (set (others row col))"
    using target_scanned [OF assms(4,5), of row] by (auto simp: set_others)
  then show ?thesis
    using check_valid_move_shape [OF assms, of v] by auto
qed

theorem check_valid_move_reads_target_witness:
  "shape one_clue \<and> check_valid_move one_clue 0 1 5 = Inr False
   \<and> check_valid_move one_clue 0 1 4 = Inr True
   \<and> check_valid_move one_clue 0 0 4 = Inr True"
proof -
  have s: "shape one_clue" by (simp add: shape_def one_clue_def)
  have "5 \<in> set (map (cell one_clue) (others 0 1))" by code_simp
  moreover have "4 \<notin> set (map (cell one_clue) (others 0 1))" by code_simp
  moreover have "4 \<notin> set (map (cell one_clue) (others 0 0))" by code_simp
  moreover have "cell one_clue (0, 1) = 0" "cell one_clue (0, 0) = 5" by code_simp+
  ultimately show ?thesis
    using s check_valid_move_reads_target [OF s, of 0 1 5]
      check_valid_move_reads_target [OF s, of 0 1 4]
      check_valid_move_reads_target [OF s, of 0 0 4]
    by simp
qed

text \<open>
  Claim C3, as stated, fails: with 5 in the cell \<open>(0, 0)\<close> and every other cell
  empty, 5 occurs in none of the other 80 cells and \<open>check_valid(0, 0, 5)\<close> is false.
\<close>

theorem check_valid_move_target_counterexample:
  "check_valid_move one_clue 0 0 5 = Inr False
   \<and> 5 \<notin> set (map (cell one_clue) (filter (\<lambda>p. p \<noteq> (0, 0)) all_cells))"
  by code_simp

section \<open>Writing a cell\<close>

lemma position_error: "position xs i = Inl e \<Longrightarrow> e = IndexError"
  by (auto simp: position_def split: if_splits)

lemma getitem_error: "getitem g p = Inl e \<Longrightarrow> e = IndexError"
  by (auto simp: getitem_def py_index_def split: prod.splits sum.splits dest: position_error)

lemma scan_lines_error: "scan_lines g row col v is = Inl e \<Longrightarrow> e = IndexError"
  by (induction "is") (auto split: sum.splits if_splits dest: getitem_error)

lemma scan_square_row_error: "scan_square_row g i v js = Inl e \<Longrightarrow> e = IndexError"
  by (induction js) (auto split: sum.splits if_splits dest: getitem_error)

lemma scan_square_error: "scan_square g v js is = Inl e \<Longrightarrow> e = IndexError"
  by (induction "is") (auto split: sum.splits if_splits dest: scan_square_row_error)

lemma check_valid_move_error: "check_valid_move g row col v = Inl e \<Longrightarrow> e = IndexError"
  by (auto simp: check_valid_move_def Let_def split: sum.splits if_splits
      dest: scan_lines_error scan_square_error)

lemma store_error: "store g row col v = (Some e, g') \<Longrightarrow> e = IndexError"
  by (auto simp: store_def split: sum.splits dest: position_error)

lemma py_range_9: "py_range 0 9 = 0 # [1..8]"
  by (simp add: py_range_def upto_rec1)

lemma check_valid_move_True_range:
  assumes "shape g" "check_valid_move g row col v = Inr True"
  shows "- 9 \<le> row \<and> row \<le> 8 \<and> - 9 \<le> col \<and> col \<le> 8"
proof -
  from assms(2) obtain a b where "getitem g (0, col) = Inr a" "getitem g (row, 0) = Inr b"
    by (auto simp: check_valid_move_def py_range_9 split: sum.splits if_splits)
  then show ?thesis
    using getitem_shape [OF assms(1), of 0 col] getitem_shape [OF assms(1), of row 0]
    by (auto split: if_splits)
qed

lemma store_shape:
  assumes "shape g" "- 9 \<le> row" "row \<le> 8" "- 9 \<le> col" "col \<le> 8"
  shows "store g row col v =
     (None, g[nat (if row < 0 then row + 9 else row) :=
               (g ! nat (if row < 0 then row + 9 else row))
                 [nat (if col < 0 then col + 9 else col) := v]])"
proof -
  have len: "length g = 9" using assms(1) by (simp add: shape_def)
  have "nat (if row < 0 then row + 9 else row) < 9" using assms(2,3) by auto
  then have "length (g ! nat (if row < 0 then row + 9 else row)) = 9"
    using assms(1) by (rule shape_row [rotated])
  then show ?thesis
    using assms(2-5) len by (simp add: store_def position_nine)
qed

text \<open>
  Claim C6. On a table of nine rows of nine cells, for every coordinate and every
  integer value: \<open>set(row, col, value)\<close> raises the illegal-move error iff
  \<open>check_valid(row, col, value)\<close> is false; on that error the table is left as it
  was; and when \<open>check_valid\<close> is true the call succeeds and the table is the old
  one with \<open>value\<close> written at \<open>(row, col)\<close> (an index below 0 counting from the
  end).
\<close>

theorem setitem_checked:
  assumes "shape g"
  shows "(fst (setitem g (row, col) v) = Some InvalidMove)
           = (check_valid_move g row col v = Inr False)
       \<and> (fst (setitem g (row, col) v) = Some InvalidMove
            \<longrightarrow> snd (setitem g (row, col) v) = g)
       \<and> (check_valid_move g row col v = Inr True
            \<longrightarrow> setitem g (row, col) v =
                 (None, g[nat (if row < 0 then row + 9 else row) :=
                           (g ! nat (if row < 0 then row + 9 else row))
                             [nat (if col < 0 then col + 9 else col) := v]]))"
proof (cases "check_valid_move g row col v")
  case (Inl e)
  then have "e = IndexError" by (rule check_valid_move_error)
  with Inl show ?thesis by (simp add: setitem_def)
next
  case (Inr ok)
  show ?thesis
  proof (cases ok)
    case True
    with Inr have "- 9 \<le> row \<and> row \<le> 8 \<and> - 9 \<le> col \<and> col \<le> 8"
      using check_valid_move_True_range [OF assms] by simp
    then show ?thesis
      using Inr True store_shape [OF assms, of row col v] by (simp add: setitem_def)
  next
    case False
    with Inr show ?thesis by (simp add: setitem_def)
  qed
qed

theorem setitem_checked_witness:
  "shape one_clue
   \<and> fst (setitem one_clue (0, 1) 5) = Some InvalidMove
   \<and> check_valid_move one_clue 0 1 5 = Inr False
   \<and> snd (setitem one_clue (0, 1) 5) = one_clue
   \<and> check_valid_move one_clue 0 1 4 = Inr True
   \<and> setitem one_clue (0, 1) 4 = (None, one_clue[0 := (one_clue ! 0)[1 := 4]])"
proof -
  have s: "shape one_clue" by (simp add: shape_def one_clue_def)
  have f: "check_valid_move one_clue 0 1 5 = Inr False" by code_simp
  have t: "check_valid_move one_clue 0 1 4 = Inr True" by code_simp
  show ?thesis
    using s f t setitem_checked [OF s, of 0 1 5] setitem_checked [OF s, of 0 1 4]
    by simp
qed

text \<open>
  Claim C10. For \<open>row\<close>, \<open>col\<close> in 0..8, \<open>set(row, col, 0)\<close> raises the illegal-move
  error iff some cell of the same row, column or square holds 0; the cell
  \<open>(row, col)\<close> is one of the cells read, so writing 0 to an empty cell always fails;
  and the write succeeds only when the cell is filled and no other cell of its row,
  column and square is empty.
\<close>

theorem setitem_zero:
  assumes "shape g" "0 \<le> row" "row \<le> 8" "0 \<le> col" "col \<le> 8"
  shows "(fst (setitem g (row, col) 0) = Some InvalidMove)
           = (0 \<in> set (map (cell g) (scanned row col)))
       \<and> (row, col) \<in> set (scanned row col)
       \<and> (cell g (row, col) = 0 \<longrightarrow> fst (setitem g (row, col) 0) = Some InvalidMove)
       \<and> (fst (setitem g (row, col) 0) = None)
           = (cell g (row, col) \<noteq> 0 \<and> 0 \<notin> set (map (cell g) (others row col)))"
proof -
  have t: "(row, col) \<in> set (scanned row col)"
    using assms(4,5) by (rule target_scanned)
  have c: "check_valid_move g row col 0 = Inr (0 \<notin> set (map (cell g) (scanned row col)))"
    using assms by (rule check_valid_move_shape)
  have w: "fst (store g row col 0) = None"
    using store_shape [OF assms(1), of row col 0] assms(2-5) by simp
  have i: "(fst (setitem g (row, col) 0) = Some InvalidMove)
      = (0 \<in> set (map (cell g) (scanned row col)))"
    using c w by (simp add: setitem_def)
  have n: "(fst (setitem g (row, col) 0) = None)
      = (0 \<notin> set (map (cell g) (scanned row col)))"
    using c w by (simp add: setitem_def)
  have "set (scanned row col) = insert (row, col) (set (others row col))"
    using t by (auto simp: set_others)
  then have e: "(0 \<notin> set (map (cell g) (scanned row col)))
      = (cell g (row, col) \<noteq> 0 \<and> 0 \<notin> set (map (cell g) (others row col)))"
    by auto
  show ?thesis
    using t i n e by auto
qed

theorem setitem_zero_witness:
  "shape one_clue \<and> shape solved_grid
   \<and> fst (setitem one_clue (0, 1) 0) = Some InvalidMove
   \<and> fst (setitem one_clue (0, 0) 0) = Some InvalidMove
   \<and> fst (setitem solved_grid (4, 4) 0) = None"
proof -
  have s: "shape one_clue" by (simp add: shape_def one_clue_def)
  have s': "shape solved_grid" by (simp add: shape_def solved_grid_def)
  have "cell one_clue (0, 1) = 0" by code_simp
  moreover have "0 \<in> set (map (cell one_clue) (scanned 0 0))" by code_simp
  moreover have "cell solved_grid (4, 4) \<noteq> 0" by code_simp
  moreover have "0 \<notin> set (map (cell solved_grid) (others 4 4))" by code_simp
  ultimately show ?thesis
    using s s' setitem_zero [OF s, of 0 1] setitem_zero [OF s, of 0 0]
      setitem_zero [OF s', of 4 4]
    by simp
qed

text \<open>
  Claim C1 at a concrete input: on the empty table, whose cells all lie in 0..9,
  \<open>set(0, 0, 10)\<close> succeeds and leaves 10 in the cell \<open>(0, 0)\<close>, outside 0..9.
  \<open>__setitem__\<close> asserts the type of the value and not its range.
\<close>

theorem setitem_accepts_ten:
  "shape empty_grid \<and> in_range empty_grid
   \<and> fst (setitem empty_grid (0, 0) 10) = None
   \<and> cell (snd (setitem empty_grid (0, 0) 10)) (0, 0) = 10
   \<and> \<not> in_range (snd (setitem empty_grid (0, 0) 10))"
  by code_simp

section \<open>The constructor\<close>

lemma init_cells_eq:
  "init_cells cells = (if list_all is_cell cells then Inr () else Inl AssertionError)"
  by (induction cells) (auto split: pyval.splits)

lemma init_rows_eq:
  "init_rows rows = (if list_all is_row rows then Inr () else Inl AssertionError)"
  by (induction rows) (auto simp: init_cells_eq split: pyval.splits)

lemma init_eq: "init t = (if valid_table t then Inr (table_of t) else Inl AssertionError)"
  by (cases t) (auto simp: init_def init_rows_eq)

lemma cells_back: "list_all is_cell cells \<Longrightarrow> map (PyInt \<circ> int_of) cells = cells"
proof (induction cells)
  case Nil
  then show ?case by simp
next
  case (Cons c cells)
  then show ?case by (cases c) auto
qed

lemma row_back: "is_row r \<Longrightarrow> PyList (map (PyInt \<circ> int_of) (list_of r)) = r"
  by (cases r) (auto simp: cells_back)

lemma rows_back:
  "list_all is_row rows \<Longrightarrow>
   map ((\<lambda>r. PyList (map PyInt r)) \<circ> (\<lambda>r. map int_of (list_of r))) rows = rows"
  by (induction rows) (auto simp: row_back)

lemma py_table_table_of: "valid_table t \<Longrightarrow> py_table (table_of t) = t"
  by (cases t) (auto simp: py_table_def table_of_def rows_back)

lemma cells_range: "list_all is_cell cells \<Longrightarrow> list_all (\<lambda>c. 0 \<le> c \<and> c \<le> 9) (map int_of cells)"
proof (induction cells)
  case Nil
  then show ?case by simp
next
  case (Cons c cells)
  then show ?case by (cases c) auto
qed

lemma valid_table_shape: "valid_table t \<Longrightarrow> shape (table_of t) \<and> in_range (table_of t)"
proof (cases t)
  case (PyList rows)
  assume "valid_table t"
  with PyList have len: "length rows = 9" and rows: "list_all is_row rows" by auto
  have "length (map int_of (list_of r)) = 9
      \<and> list_all (\<lambda>c. 0 \<le> c \<and> c \<le> 9) (map int_of (list_of r))" if "is_row r" for r
    using that by (cases r) (auto simp: cells_range)
  with rows len PyList show ?thesis
    by (auto simp: shape_def in_range_def table_of_def list_all_iff)
qed auto

lemma table_of_py_table: "table_of (py_table g) = g"
  by (simp add: table_of_def py_table_def comp_def)

lemma valid_table_py_table: "valid_table (py_table g) = (shape g \<and> in_range g)"
proof -
  have "list_all is_cell (map PyInt r) = list_all (\<lambda>c. 0 \<le> c \<and> c \<le> 9) r" for r
    by (induction r) auto
  then show ?thesis
    by (auto simp: py_table_def shape_def in_range_def list_all_iff)
qed

text \<open>
  Claim C8. The constructor fails, with the error of a failed \<open>assert\<close>, iff the
  table does not have exactly nine rows of exactly nine integer cells, every cell in
  0..9. On success the stored table is the object that was passed, a table of nine
  rows of nine cells in 0..9; nothing else is checked, so every such table of
  integers is accepted, whether or not its clues repeat in a row, column or square.
\<close>

theorem init_shape_and_range_only:
  "init t = (if valid_table t then Inr (table_of t) else Inl AssertionError)
   \<and> (valid_table t \<longrightarrow>
        py_table (table_of t) = t \<and> shape (table_of t) \<and> in_range (table_of t))
   \<and> (shape g \<and> in_range g \<longrightarrow> init (py_table g) = Inr g)"
  using init_eq [of t] init_eq [of "py_table g"] py_table_table_of [of t] valid_table_shape [of t]
  by (simp add: table_of_py_table valid_table_py_table)

theorem init_shape_and_range_only_witness:
  "valid_table (py_table solved_grid) \<and> init (py_table solved_grid) = Inr solved_grid
   \<and> init (PyList (replicate 9 (PyList (replicate 8 (PyInt 0))))) = Inl AssertionError
   \<and> init (PyList (replicate 9 (PyList (replicate 9 (PyInt 10))))) = Inl AssertionError
   \<and> init (PyList (replicate 9 (PyList (replicate 9 PyOther)))) = Inl AssertionError
   \<and> shape fives \<and> in_range fives \<and> \<not> consistent fives
   \<and> init (py_table fives) = Inr fives"
proof -
  have v: "valid_table (py_table solved_grid)" by code_simp
  have n1: "\<not> valid_table (PyList (replicate 9 (PyList (replicate 8 (PyInt 0)))))" by code_simp
  have n2: "\<not> valid_table (PyList (replicate 9 (PyList (replicate 9 (PyInt 10)))))" by code_simp
  have n3: "\<not> valid_table (PyList (replicate 9 (PyList (replicate 9 PyOther))))" by code_simp
  have f: "shape fives" "in_range fives" "\<not> consistent fives" by code_simp+
  show ?thesis
    using v n1 n2 n3 f
      init_shape_and_range_only [of "py_table solved_grid" fives]
      init_shape_and_range_only [of "PyList (replicate 9 (PyList (replicate 8 (PyInt 0))))" fives]
      init_shape_and_range_only [of "PyList (replicate 9 (PyList (replicate 9 (PyInt 10))))" fives]
      init_shape_and_range_only [of "PyList (replicate 9 (PyList (replicate 9 PyOther)))" fives]
    by (simp add: table_of_py_table)
qed

section \<open>The completeness check\<close>

text \<open>
  \<open>add_at xs f\<close> adds \<open>f k\<close> to the entry \<open>k\<close> of a list of sums; each pass of the
  loops of \<open>complete\<close> is such an addition.
\<close>

definition add_at :: "int list \<Rightarrow> (nat \<Rightarrow> int) \<Rightarrow> int list" where
  "add_at xs f = map (\<lambda>k. xs ! k + f k) [0..<length xs]"

lemma length_add_at [simp]: "length (add_at xs f) = length xs"
  by (simp add: add_at_def)

lemma update_add_at: "xs[n := xs ! n + c] = add_at xs (\<lambda>k. if k = n then c else 0)"
  by (rule nth_equalityI) (auto simp: add_at_def nth_list_update)

lemma add_at_nothing: "add_at xs (\<lambda>k. 0) = xs"
  by (simp add: add_at_def map_nth)

lemma add_at_add_at: "add_at (add_at xs f) h = add_at xs (\<lambda>k. f k + h k)"
  by (auto simp: add_at_def)

lemma add_at_cong: "(\<And>k. k < length xs \<Longrightarrow> f k = h k) \<Longrightarrow> add_at xs f = add_at xs h"
  by (auto simp: add_at_def)

lemma add_at_zeros: "add_at (replicate n 0) f = map f [0..<n]"
  by (auto simp: add_at_def)

lemma complete_inner_sums:
  assumes "shape g" "0 \<le> i" "i \<le> 8" "\<forall>j\<in>set js. 0 \<le> j \<and> j \<le> 8"
  shows "complete_inner g i (cs, rs) js =
     Inr (add_at cs (\<lambda>k. sum_list (map (\<lambda>j. cell g (i, j)) (filter (\<lambda>j. nat j = k) js))),
          add_at rs (\<lambda>k. if k = nat i then sum_list (map (\<lambda>j. cell g (i, j)) js) else 0))"
  using assms(4)
proof (induction js arbitrary: cs rs)
  case Nil
  have "add_at rs (\<lambda>k. if k = nat i then sum_list (map (\<lambda>j. cell g (i, j)) []) else 0) =
      add_at rs (\<lambda>k. 0)"
    by (rule add_at_cong) simp
  then show ?case by (simp add: add_at_nothing)
next
  case (Cons j js)
  then have j: "0 \<le> j" "j \<le> 8" and js: "\<forall>j\<in>set js. 0 \<le> j \<and> j \<le> 8" by auto
  let ?c = "cell g (i, j)"
  have get: "getitem g (i, j) = Inr ?c"
    using assms(1-3) j by (simp add: getitem_cell)
  have "complete_inner g i (cs, rs) (j # js) =
      complete_inner g i (add_at cs (\<lambda>k. if k = nat j then ?c else 0),
                          add_at rs (\<lambda>k. if k = nat i then ?c else 0)) js"
    by (simp add: get update_add_at)
  also have "\<dots> =
      Inr (add_at cs (\<lambda>k. (if k = nat j then ?c else 0)
              + sum_list (map (\<lambda>j. cell g (i, j)) (filter (\<lambda>j. nat j = k) js))),
           add_at rs (\<lambda>k. (if k = nat i then ?c else 0)
              + (if k = nat i then sum_list (map (\<lambda>j. cell g (i, j)) js) else 0)))"
    by (simp only: Cons.IH [OF js] add_at_add_at)
  also have "add_at cs (\<lambda>k. (if k = nat j then ?c else 0)
              + sum_list (map (\<lambda>j. cell g (i, j)) (filter (\<lambda>j. nat j = k) js))) =
      add_at cs (\<lambda>k. sum_list (map (\<lambda>j. cell g (i, j)) (filter (\<lambda>j. nat j = k) (j # js))))"
    by (rule add_at_cong) simp
  also have "add_at rs (\<lambda>k. (if k = nat i then ?c else 0)
              + (if k = nat i then sum_list (map (\<lambda>j. cell g (i, j)) js) else 0)) =
      add_at rs (\<lambda>k. if k = nat i then sum_list (map (\<lambda>j. cell g (i, j)) (j # js)) else 0)"
    by (rule add_at_cong) simp
  finally show ?case .
qed

lemma complete_outer_sums:
  assumes "shape g" "\<forall>j\<in>set js. 0 \<le> j \<and> j \<le> 8" "\<forall>i\<in>set is. 0 \<le> i \<and> i \<le> 8"
  shows "complete_outer g (cs, rs) js is =
     Inr (add_at cs (\<lambda>k. sum_list (map (\<lambda>i. sum_list (map (\<lambda>j. cell g (i, j))
                 (filter (\<lambda>j. nat j = k) js))) is)),
          add_at rs (\<lambda>k. sum_list (map (\<lambda>i. sum_list (map (\<lambda>j. cell g (i, j)) js))
                 (filter (\<lambda>i. nat i = k) is))))"
  using assms(3)
proof (induction "is" arbitrary: cs rs)
  case Nil
  show ?case by (simp add: add_at_nothing)
next
  case (Cons i "is")
  then have i: "0 \<le> i" "i \<le> 8" and rest: "\<forall>i\<in>set is. 0 \<le> i \<and> i \<le> 8" by auto
  let ?col = "\<lambda>i k. sum_list (map (\<lambda>j. cell g (i, j)) (filter (\<lambda>j. nat j = k) js))"
  let ?row = "\<lambda>i. sum_list (map (\<lambda>j. cell g (i, j)) js)"
  have "complete_outer g (cs, rs) js (i # is) =
      complete_outer g (add_at cs (?col i), add_at rs (\<lambda>k. if k = nat i then ?row i else 0)) js is"
    by (simp add: complete_inner_sums [OF assms(1) i assms(2)])
  also have "\<dots> =
      Inr (add_at cs (\<lambda>k. ?col i k + sum_list (map (\<lambda>i. ?col i k) is)),
           add_at rs (\<lambda>k. (if k = nat i then ?row i else 0)
              + sum_list (map ?row (filter (\<lambda>i. nat i = k) is))))"
    by (simp only: Cons.IH [OF rest] add_at_add_at)
  also have "add_at cs (\<lambda>k. ?col i k + sum_list (map (\<lambda>i. ?col i k) is)) =
      add_at cs (\<lambda>k. sum_list (map (\<lambda>i. ?col i k) (i # is)))"
    by (rule add_at_cong) simp
  also have "add_at rs (\<lambda>k. (if k = nat i then ?row i else 0)
              + sum_list (map ?row (filter (\<lambda>i. nat i = k) is))) =
      add_at rs (\<lambda>k. sum_list (map ?row (filter (\<lambda>i. nat i = k) (i # is))))"
    by (rule add_at_cong) simp
  finally show ?case .
qed

lemma upto_0_8: "[0..8] = [0, 1, 2, 3, 4, 5, 6, 7, 8::int]"
  by (simp add: upto_rec1)

lemma filter_index: "k < 9 \<Longrightarrow> filter (\<lambda>j. nat j = k) [0..8] = [int k]"
proof -
  assume "k < 9"
  then consider "k = 0" | "k = 1" | "k = 2" | "k = 3" | "k = 4" | "k = 5" | "k = 6" | "k = 7" | "k = 8"
    by linarith
  then show ?thesis
    by cases (simp_all add: upto_0_8)
qed

lemma list_all_upto_nat: "list_all P [0..8] = (\<forall>k<9. P (int k))"
proof -
  have "\<exists>k<9. i = int k" if "0 \<le> i" "i \<le> 8" for i :: int
    using that by (intro exI [of _ "nat i"]) auto
  then show ?thesis
    by (fastforce simp: list_all_iff)
qed

lemma complete_shape:
  assumes "shape g"
  shows "complete g =
     Inr (list_all (\<lambda>j. sum_list (map (cell g) (col_cells j)) = 45) [0..8]
          \<and> list_all (\<lambda>i. sum_list (map (cell g) (row_cells i)) = 45) [0..8])"
proof -
  have r: "\<forall>j\<in>set (py_range 0 9). 0 \<le> j \<and> j \<le> 8" by (simp add: py_range_def)
  have c: "sum_list (map (\<lambda>i. sum_list (map (\<lambda>j. cell g (i, j))
        (filter (\<lambda>j. nat j = k) [0..8]))) [0..8]) = sum_list (map (cell g) (col_cells (int k)))"
    if "k < 9" for k
    by (simp add: filter_index [OF that] col_cells_def comp_def)
  have w: "sum_list (map (\<lambda>i. sum_list (map (\<lambda>j. cell g (i, j)) [0..8]))
        (filter (\<lambda>i. nat i = k) [0..8])) = sum_list (map (cell g) (row_cells (int k)))"
    if "k < 9" for k
    by (simp add: filter_index [OF that] row_cells_def comp_def)
  have "complete g =
      Inr ((\<forall>k<9. sum_list (map (cell g) (col_cells (int k))) = 45)
           \<and> (\<forall>k<9. sum_list (map (cell g) (row_cells (int k))) = 45))"
    unfolding complete_def complete_outer_sums [OF assms r r] add_at_zeros
    by (auto simp: py_range_def list_all_iff c w)
  then show ?thesis
    by (simp only: list_all_upto_nat)
qed

text \<open>
  Claim C7. For every table of nine rows of nine cells, whatever its cells hold,
  \<open>complete()\<close> returns true iff each of the nine rows sums to 45 and each of the
  nine columns sums to 45. Uniqueness is not checked again: the table with 5 in
  every cell is accepted by the constructor, breaks the uniqueness constraint, and
  \<open>complete()\<close> returns true on it.
\<close>

theorem complete_sums_only:
  "(shape g \<longrightarrow> complete g =
      Inr (list_all (\<lambda>i. sum_list (map (cell g) (row_cells i)) = 45) [0..8]
           \<and> list_all (\<lambda>j. sum_list (map (cell g) (col_cells j)) = 45) [0..8]))
   \<and> init (py_table fives) = Inr fives \<and> \<not> consistent fives \<and> complete fives = Inr True"
proof -
  have "init (py_table fives) = Inr fives" by code_simp
  moreover have "\<not> consistent fives" by code_simp
  moreover have "complete fives = Inr True" by code_simp
  ultimately show ?thesis
    using complete_shape [of g] by auto
qed

theorem complete_sums_only_witness:
  "shape solved_grid \<and> complete solved_grid = Inr True
   \<and> shape one_clue \<and> complete one_clue = Inr False"
proof -
  have s: "shape solved_grid" "shape one_clue" by code_simp+
  have "list_all (\<lambda>i. sum_list (map (cell solved_grid) (row_cells i)) = 45) [0..8]" by code_simp
  moreover have "list_all (\<lambda>j. sum_list (map (cell solved_grid) (col_cells j)) = 45) [0..8]"
    by code_simp
  moreover have "\<not> list_all (\<lambda>i. sum_list (map (cell one_clue) (row_cells i)) = 45) [0..8]"
    by code_simp
  ultimately show ?thesis
    using s complete_sums_only [of solved_grid] complete_sums_only [of one_clue] by simp
qed

section \<open>The solver\<close>

text \<open>
  Claim C2 at a concrete input. The table \<open>blocked\<close> passes the constructor and has
  no solution: \<open>_solve_puzzle\<close> returns \<open>False\<close>, and \<open>Puzzle.solve\<close> then reads
  \<open>solution.data\<close> of \<open>False\<close>, which raises AttributeError; the caller gets an
  exception, not a value to check.
\<close>

theorem solve_unsolvable_raises:
  "init (py_table blocked) = Inr blocked
   \<and> solve_puzzle blocked 0 0 = Inr PyFalse
   \<and> solve blocked = (Some AttributeError, blocked)"
  by code_simp


definition on_board :: "coord \<Rightarrow> bool" where
  "on_board q = (0 \<le> fst q \<and> fst q \<le> 8 \<and> 0 \<le> snd q \<and> snd q \<le> 8)"







lemma next_rc_on_board:
  "on_board (row, col) \<Longrightarrow> \<not> (row = 8 \<and> col = 8) \<Longrightarrow>
   on_board (fst (next_rc row col), snd (next_rc row col))"
  using next_rc_cases [of col row] by (auto simp: on_board_def)

































end
